theory Spec2Isabelle
  imports Main
begin

section \<open>Data model of the stratum gateway\<close>

text \<open>
  Go strings are byte strings; \<open>len\<close> counts bytes. They are modelled as \<^typ>\<open>string\<close>.
  A Go \<open>error\<close> value is \<open>error option\<close> (\<open>None\<close> for \<open>nil\<close>); a run-time panic
  (slice or index out of range, nil dereference) is the left injection of a sum.
\<close>

datatype error =
    JsonError            \<comment> \<open>an error returned by \<open>json.Unmarshal\<close>\<close>
  | WriteError           \<comment> \<open>an error returned by \<open>cs.enc.Encode\<close>\<close>
  | EOF                  \<comment> \<open>\<open>io.EOF\<close>\<close>
  | ReadError            \<comment> \<open>any other error returned by \<open>ReadLine\<close>\<close>
  | ParseError           \<comment> \<open>an error returned by \<open>strconv.ParseInt\<close>\<close>
  | ErrorsNew string     \<comment> \<open>\<open>errors.New(msg)\<close>\<close>

datatype panic = OutOfRange | NilDereference

definition MaxReqSize :: nat where
  "MaxReqSize = 1024"

definition EthProxy :: int where
  "EthProxy = 0"

definition NiceHash :: int where
  "NiceHash = 1"

record ErrorReply =
  Code :: int
  Message :: string

record jobDetails =
  JobID :: string
  SeedHash :: string
  HeaderHash :: string
  Height :: string

record staleJob =
  staleSeedHash :: string
  staleHeaderHash :: string

text \<open>Values handed to the JSON encoder as \<open>interface{}\<close>.\<close>

datatype jval =
    JNull
  | JBool bool
  | JInt int
  | JStr string
  | JArr "jval list"
  | JErrorReply int string   \<comment> \<open>a non-nil \<open>*ErrorReply\<close>\<close>
  | JDiffFloat int           \<comment> \<open>\<open>util.DiffIntToFloat d\<close>, kept symbolic\<close>

text \<open>The three frame shapes written by the encoder, field by field as in the Go structs.\<close>

datatype message =
    JSONRpcResp string string jval jval             \<comment> \<open>Id, Version, Result, Error\<close>
  | JSONStratumReq jval string "jval list" string string
      \<comment> \<open>Id, Method, Params, Height, Algo\<close>
  | JSONPushMessage string jval int                 \<comment> \<open>Version, Result, Id\<close>

record Session =
  ip :: string
  login :: string
  worker :: string
  stratum :: int
  JobDetails :: jobDetails
  Extranonce :: string
  ExtranonceSub :: bool
  staleJobs :: "string \<rightharpoonup> staleJob"
  staleJobIDs :: "string list"
  enc :: "message list"      \<comment> \<open>the frames written to the connection so far\<close>
  conn_closed :: bool        \<comment> \<open>whether \<open>conn.Close()\<close> has been called\<close>

text \<open>The session built by \<open>ListenTCP\<close> for an accepted connection.\<close>

definition newSession :: "string \<Rightarrow> string \<Rightarrow> Session" where
  "newSession addr extranonce =
     \<lparr> ip = addr, login = [], worker = [], stratum = -1,
       JobDetails = \<lparr> JobID = [], SeedHash = [], HeaderHash = [], Height = [] \<rparr>,
       Extranonce = extranonce, ExtranonceSub = False,
       staleJobs = Map.empty, staleJobIDs = [], enc = [], conn_closed = False \<rparr>"

subsection \<open>setStratumMode and stratumMode\<close>

definition setStratumMode :: "Session \<Rightarrow> string \<Rightarrow> error option \<times> Session" where
  "setStratumMode cs str =
     (if str = ''EthereumStratum/1.0.0''
      then (None, cs\<lparr>stratum := NiceHash\<rparr>)
      else (None, cs\<lparr>stratum := EthProxy\<rparr>))"

definition stratumMode :: "Session \<Rightarrow> int" where
  "stratumMode cs = stratum cs"

subsection \<open>Randomness\<close>

text \<open>
  \<open>math/rand\<close> is a library: the generator is taken as an infinite supply of raw draws,
  and \<open>rand.Intn n\<close> (documented to return a number in \<open>[0, n)\<close>) reduces the next
  draw modulo \<open>n\<close>. Reseeding from the clock only changes which supply is seen.
\<close>

type_synonym rng = "nat \<Rightarrow> nat"

definition Intn :: "nat \<Rightarrow> rng \<Rightarrow> nat \<times> rng" where
  "Intn n r = (r 0 mod n, \<lambda>i. r (Suc i))"

definition chars :: string where
  "chars = ''0123456789abcdef''"

fun randomHex :: "nat \<Rightarrow> rng \<Rightarrow> string \<times> rng" where
  "randomHex 0 r = ([], r)"
| "randomHex (Suc k) r =
     (case Intn (length chars) r of (d, r') \<Rightarrow>
        (case randomHex k r' of (res, r'') \<Rightarrow> (chars ! d # res, r'')))"

subsection \<open>Collaborators\<close>

text \<open>
  The RPC handlers (\<open>handleLoginRPC\<close>, \<open>handleGetWorkRPC\<close>, \<open>handleTCPSubmitRPC\<close>,
  \<open>handleUnknownRPC\<close>), the block template, the configuration, the \<open>util\<close> helpers and the
  library calls whose outcome the gateway only inspects are parameters: the record
  \<open>ext\<close> gives what each of them returns, as a function of the session and the arguments
  it is called with. What the handlers do besides returning (recording the login, touching
  the policy) is outside the gateway code and is not modelled. \<open>Encode\<close> is the outcome
  of writing a frame when the given number of frames has been written before it;
  \<open>runeString\<close> is the conversion \<open>string(code)\<close> of an integer, \<open>Itoa\<close> is
  \<open>strconv.Itoa\<close>, \<open>ParseInt16\<close> is \<open>strconv.ParseInt(s, 16, 64)\<close> and \<open>UnmarshalReq\<close>
  is \<open>json.Unmarshal\<close> into a \<open>StratumReq\<close>.
\<close>

record BlockTemplate =
  Header :: string
  Seed :: string
  blockHeight :: int

datatype raw_params = Undecodable | Strings "string list"

record StratumReq =
  Id :: string
  Method :: string
  Params :: raw_params
  Worker :: string

record ext =
  handleLoginRPC :: "Session \<Rightarrow> string list \<Rightarrow> string \<Rightarrow> bool \<times> ErrorReply option"
  handleGetWorkRPC :: "Session \<Rightarrow> string list \<times> ErrorReply option"
  handleTCPSubmitRPC :: "Session \<Rightarrow> string \<Rightarrow> string list \<Rightarrow> bool \<times> ErrorReply option"
  handleUnknownRPC :: "Session \<Rightarrow> string \<Rightarrow> ErrorReply"
  currentBlockTemplate :: "BlockTemplate option"
  Encode :: "nat \<Rightarrow> message \<Rightarrow> error option"
  Algo :: string
  Difficulty :: int
  ToHex1 :: "int \<Rightarrow> string"
  runeString :: "int \<Rightarrow> string"
  Itoa :: "int \<Rightarrow> string"
  ParseInt16 :: "string \<Rightarrow> error + int"
  UnmarshalReq :: "string \<Rightarrow> error + StratumReq"

text \<open>\<open>json.Unmarshal(req.Params, &params)\<close> with \<open>params\<close> a \<open>[]string\<close>.\<close>

definition unmarshalParams :: "raw_params \<Rightarrow> error + string list" where
  "unmarshalParams p = (case p of Undecodable \<Rightarrow> Inl JsonError | Strings ps \<Rightarrow> Inr ps)"

subsection \<open>Writing frames\<close>

definition encode :: "ext \<Rightarrow> Session \<Rightarrow> message \<Rightarrow> error option \<times> Session" where
  "encode e cs m =
     (case Encode e (length (enc cs)) m of
        None \<Rightarrow> (None, cs\<lparr>enc := enc cs @ [m]\<rparr>)
      | Some err \<Rightarrow> (Some err, cs))"

definition sendTCPResult :: "ext \<Rightarrow> Session \<Rightarrow> string \<Rightarrow> jval \<Rightarrow> error option \<times> Session" where
  "sendTCPResult e cs rid result = encode e cs (JSONRpcResp rid ''2.0'' result JNull)"

definition sendTCPError :: "ext \<Rightarrow> Session \<Rightarrow> string \<Rightarrow> ErrorReply \<Rightarrow> error option \<times> Session" where
  "sendTCPError e cs rid reply =
     (case encode e cs (JSONRpcResp rid ''2.0'' JNull (JErrorReply (Code reply) (Message reply))) of
        (Some err, cs') \<Rightarrow> (Some err, cs')
      | (None, cs') \<Rightarrow> (Some (ErrorsNew (Message reply)), cs'))"

definition sendStratumResult :: "ext \<Rightarrow> Session \<Rightarrow> string \<Rightarrow> jval \<Rightarrow> error option \<times> Session" where
  "sendStratumResult e cs rid result = encode e cs (JSONRpcResp rid [] result JNull)"

definition sendStratumError :: "ext \<Rightarrow> Session \<Rightarrow> string \<Rightarrow> jval \<Rightarrow> error option \<times> Session" where
  "sendStratumError e cs rid msg = encode e cs (JSONRpcResp rid [] JNull msg)"

definition sendTCPReq :: "ext \<Rightarrow> Session \<Rightarrow> message \<Rightarrow> error option \<times> Session" where
  "sendTCPReq e cs resp = encode e cs resp"

subsection \<open>The stale-job cache\<close>

definition storeStale :: "Session \<Rightarrow> Session" where
  "storeStale cs =
     cs\<lparr> staleJobs := (staleJobs cs)(JobID (JobDetails cs) \<mapsto>
            \<lparr> staleSeedHash = SeedHash (JobDetails cs),
              staleHeaderHash = HeaderHash (JobDetails cs) \<rparr>),
         staleJobIDs := staleJobIDs cs @ [JobID (JobDetails cs)] \<rparr>"

text \<open>
  \<open>cacheStales\<close>: the slice expressions \<open>ids[l-n : l]\<close> and \<open>ids[0 : l-n]\<close> panic
  unless \<open>0 \<le> l - n \<le> l\<close>; the \<open>range\<close> loop deletes the keys of \<open>del\<close> one by one.
\<close>

definition cacheStales :: "int \<Rightarrow> int \<Rightarrow> Session \<Rightarrow> panic + Session" where
  "cacheStales mx n cs =
     (let l = int (length (staleJobIDs cs)) in
      if l > mx then
        (if l - n < 0 \<or> l < l - n then Inl OutOfRange
         else
           let save = drop (nat (l - n)) (staleJobIDs cs);
               del = take (nat (l - n)) (staleJobIDs cs)
           in Inr (storeStale (cs\<lparr> staleJobs := fold (\<lambda>v m. m(v := None)) del (staleJobs cs),
                                    staleJobIDs := save \<rparr>)))
      else Inr (storeStale cs))"

subsection \<open>Jobs\<close>

text \<open>
  The prefix-stripping step shared by \<open>pushNewJob\<close> and \<open>sendJob\<close>:
  \<open>SeedHash[0:2]\<close> panics on a seed hash shorter than two bytes, and
  \<open>HeaderHash[2:]\<close> on a header hash shorter than two bytes.
\<close>

definition sliceTo2 :: "string \<Rightarrow> panic + string" where
  "sliceTo2 s = (if length s < 2 then Inl OutOfRange else Inr (take 2 s))"

definition sliceFrom2 :: "string \<Rightarrow> panic + string" where
  "sliceFrom2 s = (if length s < 2 then Inl OutOfRange else Inr (drop 2 s))"

definition strip0x :: "jobDetails \<Rightarrow> panic + jobDetails" where
  "strip0x jd =
     (case sliceTo2 (SeedHash jd) of
        Inl p \<Rightarrow> Inl p
      | Inr pre \<Rightarrow>
          if pre = ''0x'' then
            (case sliceFrom2 (SeedHash jd) of
               Inl p \<Rightarrow> Inl p
             | Inr seed \<Rightarrow>
                 (case sliceFrom2 (HeaderHash jd) of
                    Inl p \<Rightarrow> Inl p
                  | Inr hdr \<Rightarrow> Inr (jd\<lparr>SeedHash := seed, HeaderHash := hdr\<rparr>)))
          else Inr jd)"

text \<open>
  \<open>int64(t.Height)\<close>: the conversion of the template's height to a signed 64-bit integer,
  which wraps modulo \<open>2^64\<close> into the range from \<open>-2^63\<close> to \<open>2^63 - 1\<close>.
\<close>

definition int64 :: "int \<Rightarrow> int" where
  "int64 n = (n + 2 ^ 63) mod 2 ^ 64 - 2 ^ 63"

text \<open>The job built from a work reply \<open>[header, seed, diff, height]\<close>.\<close>

definition newJobDetails :: "string \<Rightarrow> string list \<Rightarrow> panic + jobDetails" where
  "newJobDetails jid t =
     (if length t < 4 then Inl OutOfRange
      else strip0x \<lparr> JobID = jid, SeedHash = t ! 1, HeaderHash = t ! 0, Height = t ! 3 \<rparr>)"

definition notify :: "ext \<Rightarrow> jobDetails \<Rightarrow> bool \<Rightarrow> BlockTemplate \<Rightarrow> message" where
  "notify e jd clean t =
     JSONStratumReq JNull ''mining.notify''
       [JStr (JobID jd), JStr (SeedHash jd), JStr (HeaderHash jd), JBool clean]
       (ToHex1 e (int64 (blockHeight t))) (Algo e)"

definition pushNewJob ::
  "ext \<Rightarrow> Session \<Rightarrow> rng \<Rightarrow> string list \<Rightarrow> panic + (error option \<times> Session \<times> rng)" where
  "pushNewJob e cs r t =
     (if stratumMode cs = NiceHash then
        (case cacheStales 10 3 cs of
           Inl p \<Rightarrow> Inl p
         | Inr cs1 \<Rightarrow>
             (case randomHex 8 r of (jid, r') \<Rightarrow>
                (case newJobDetails jid t of
                   Inl p \<Rightarrow> Inl p
                 | Inr jd \<Rightarrow>
                     (case currentBlockTemplate e of
                        None \<Rightarrow> Inl NilDereference
                      | Some a \<Rightarrow>
                          (case encode e (cs1\<lparr>JobDetails := jd\<rparr>) (notify e jd False a) of
                             (err, cs2) \<Rightarrow> Inr (err, cs2, r'))))))
      else
        (case encode e cs (JSONPushMessage ''2.0'' (JArr (map JStr t)) 0) of
           (err, cs') \<Rightarrow> Inr (err, cs', r)))"

definition sendJob ::
  "ext \<Rightarrow> Session \<Rightarrow> rng \<Rightarrow> string \<Rightarrow> bool \<Rightarrow> panic + (error option \<times> Session \<times> rng)" where
  "sendJob e cs r rid newjob =
     (let push = (\<lambda>cs' r'.
            case currentBlockTemplate e of
              None \<Rightarrow> Inl NilDereference
            | Some t \<Rightarrow>
                (case sendTCPReq e cs' (notify e (JobDetails cs') True t) of
                   (err, cs'') \<Rightarrow> Inr (err, cs'', r')))
      in
      if newjob then
        (case handleGetWorkRPC e cs of
           (reply, Some errReply) \<Rightarrow>
             (case sendStratumError e cs rid
                     (JArr [JStr (runeString e (Code errReply)), JStr (Message errReply)]) of
                (err, cs') \<Rightarrow> Inr (err, cs', r))
         | (reply, None) \<Rightarrow>
             (case randomHex 8 r of (jid, r') \<Rightarrow>
                (case newJobDetails jid reply of
                   Inl p \<Rightarrow> Inl p
                 | Inr jd \<Rightarrow> push (cs\<lparr>JobDetails := jd\<rparr>) r')))
      else push cs r)"

definition getNotificationResponse :: "ext \<Rightarrow> Session \<Rightarrow> rng \<Rightarrow> jval \<times> rng" where
  "getNotificationResponse e cs r =
     (case randomHex 16 r of (sid, r') \<Rightarrow>
        (let result = JArr [JArr [JStr ''mining.notify'', JStr sid, JStr ''EthereumStratum/1.0.0''],
                            JStr (Extranonce cs)]
         in
         if stratumMode cs = NiceHash then
           (case currentBlockTemplate e of
              None \<Rightarrow> (result, r')
            | Some t \<Rightarrow>
                (case randomHex 8 r' of (jobID, r'') \<Rightarrow>
                   (JArr [JStr ''mining.notify'', JStr jobID, JStr (Seed t), JStr (Header t),
                          JStr (ToHex1 e (int64 (blockHeight t)))], r'')))
         else (result, r')))"

subsection \<open>The message handler\<close>

text \<open>\<open>strings.Split(s, ".")\<close>: the pieces between the dots, at least one piece.\<close>

fun splitDot :: "string \<Rightarrow> string list" where
  "splitDot [] = [[]]"
| "splitDot (c # cs) =
     (if c = CHR ''.'' then [] # splitDot cs
      else (case splitDot cs of [] \<Rightarrow> [[c]] | w # ws \<Rightarrow> (c # w) # ws))"

type_synonym handled = "panic + (error option \<times> Session \<times> rng)"

definition sent :: "rng \<Rightarrow> error option \<times> Session \<Rightarrow> handled" where
  "sent r res = (case res of (err, cs) \<Rightarrow> Inr (err, cs, r))"

text \<open>
  \<open>handleTCPMessage\<close> is one function in the source; each \<open>case\<close> of its switches is a
  definition here, and \<open>handleTCPMessage\<close> below is the dispatch in the source's order.
\<close>

definition case_eth_login :: "ext \<Rightarrow> Session \<Rightarrow> rng \<Rightarrow> StratumReq \<Rightarrow> handled" where
  "case_eth_login e cs r req =
     (case unmarshalParams (Params req) of
        Inl err \<Rightarrow> Inr (Some err, cs, r)
      | Inr params \<Rightarrow>
          (case handleLoginRPC e cs params (Worker req) of
             (reply, Some errReply) \<Rightarrow> sent r (sendTCPError e cs (Id req) errReply)
           | (reply, None) \<Rightarrow> sent r (sendTCPResult e cs (Id req) (JBool reply))))"

definition case_eth_submitLogin :: "ext \<Rightarrow> Session \<Rightarrow> rng \<Rightarrow> StratumReq \<Rightarrow> handled" where
  "case_eth_submitLogin e cs r req =
     (case unmarshalParams (Params req) of
        Inl err \<Rightarrow> Inr (Some err, cs, r)
      | Inr params \<Rightarrow>
          if length params < 1 then Inr (None, cs, r)
          else
            (case handleLoginRPC e cs params (Worker req) of
               (reply, Some err) \<Rightarrow> sent r (sendTCPError e cs (Id req) err)
             | (reply, None) \<Rightarrow>
                 sent r (sendTCPResult e (snd (setStratumMode cs ''EthProxy'')) (Id req)
                           (JBool reply))))"

definition case_mining_subscribe :: "ext \<Rightarrow> Session \<Rightarrow> rng \<Rightarrow> StratumReq \<Rightarrow> handled" where
  "case_mining_subscribe e cs r req =
     (case unmarshalParams (Params req) of
        Inl err \<Rightarrow> Inr (Some err, cs, r)
      | Inr params \<Rightarrow>
          if length params < 2 then Inr (None, cs, r)
          else if params ! 1 \<noteq> ''EthereumStratum/1.0.0'' \<and> params ! 0 \<noteq> ''GodMiner/2.0.0''
          then sent r (sendStratumError e cs (Id req) (JStr ''unsupported stratum version''))
          else
            (let cs1 = snd (setStratumMode (cs\<lparr>ExtranonceSub := True\<rparr>) ''EthereumStratum/1.0.0'')
             in case getNotificationResponse e cs1 r of
                  (result, r') \<Rightarrow> sent r' (sendStratumResult e cs1 (Id req) result)))"

definition case_mining_authorize :: "ext \<Rightarrow> Session \<Rightarrow> rng \<Rightarrow> StratumReq \<Rightarrow> handled" where
  "case_mining_authorize e cs r req =
     (case unmarshalParams (Params req) of
        Inl err \<Rightarrow> Inr (Some (ErrorsNew ''invalid params''), cs, r)
      | Inr params \<Rightarrow>
          if length params < 1 then Inr (Some (ErrorsNew ''invalid params''), cs, r)
          else
            (let splitData = splitDot (params ! 0);
                 params' = params[0 := splitData ! 0]
             in case handleLoginRPC e cs params' (Worker req) of
                  (reply, Some errReply) \<Rightarrow>
                    sent r (sendStratumError e cs (Id req)
                              (JArr [JStr (runeString e (Code errReply)), JStr (Message errReply)]))
                | (reply, None) \<Rightarrow>
                    (case sendStratumResult e cs (Id req) (JBool reply) of
                       (Some err, cs1) \<Rightarrow> Inr (Some err, cs1, r)
                     | (None, cs1) \<Rightarrow>
                         (case sendTCPReq e cs1
                                 (JSONStratumReq JNull ''mining.set_difficulty''
                                    [JDiffFloat (Difficulty e)] [] []) of
                            (Some err, cs2) \<Rightarrow> Inr (Some err, cs2, r)
                          | (None, cs2) \<Rightarrow> sendJob e cs2 r (Id req) True))))"

definition case_mining_extranonce_subscribe ::
  "ext \<Rightarrow> Session \<Rightarrow> rng \<Rightarrow> StratumReq \<Rightarrow> handled" where
  "case_mining_extranonce_subscribe e cs r req =
     (case unmarshalParams (Params req) of
        Inl err \<Rightarrow> Inr (Some (ErrorsNew ''invalid params''), cs, r)
      | Inr params \<Rightarrow>
          if length params = 0 then
            (case sendStratumResult e cs (Id req) (JBool True) of
               (Some err, cs1) \<Rightarrow> Inr (Some err, cs1, r)
             | (None, cs1) \<Rightarrow>
                 sent r (sendTCPReq e (cs1\<lparr>ExtranonceSub := True\<rparr>)
                           (JSONStratumReq JNull ''mining.set_extranonce''
                              [JStr (Extranonce cs1)] [] [])))
          else sent r (sendStratumError e cs (Id req) (JArr [JStr ''20'', JStr ''Not supported.''])))"

text \<open>The tail of the \<open>mining.submit\<close> case: the call of \<open>handleTCPSubmitRPC\<close> and its reply.\<close>

definition submitShare ::
  "ext \<Rightarrow> Session \<Rightarrow> rng \<Rightarrow> string \<Rightarrow> string \<Rightarrow> string list \<Rightarrow> handled" where
  "submitShare e cs r rid wid params =
     (case handleTCPSubmitRPC e cs wid params of
        (reply, Some errReply) \<Rightarrow>
          sent r (sendStratumError e cs rid
                    (JArr [JStr (Itoa e (Code errReply)), JStr (Message errReply)]))
      | (reply, None) \<Rightarrow> sent r (sendStratumResult e cs rid (JBool reply)))"

definition case_mining_submit :: "ext \<Rightarrow> Session \<Rightarrow> rng \<Rightarrow> StratumReq \<Rightarrow> handled" where
  "case_mining_submit e cs r req =
     (case unmarshalParams (Params req) of
        Inl err \<Rightarrow> Inr (Some err, cs, r)
      | Inr params \<Rightarrow>
          if length params < 3 then Inr (None, cs, r)
          else
            (let splitData = splitDot (params ! 0);
                 wid = (if length splitData > 1 then splitData ! 1 else ''0'');
                 cs1 = cs\<lparr>worker := wid\<rparr>;
                 extranonce = (if \<not> ExtranonceSub cs1 then [] else Extranonce cs1);
                 nonce = extranonce @ params ! 2
             in
             if JobID (JobDetails cs1) \<noteq> params ! 1 then
               (case staleJobs cs1 (params ! 1) of
                  Some stale \<Rightarrow>
                    submitShare e cs1 r (Id req) wid
                      [nonce, staleSeedHash stale, staleHeaderHash stale]
                | None \<Rightarrow>
                    (case sendStratumError e cs1 (Id req)
                            (JArr [JStr ''21'', JStr ''Stale share.'']) of
                       (Some err, cs2) \<Rightarrow> Inr (Some err, cs2, r)
                     | (None, cs2) \<Rightarrow> sendJob e cs2 r (Id req) False))
             else
               submitShare e cs1 r (Id req) wid
                 [nonce, SeedHash (JobDetails cs1), HeaderHash (JobDetails cs1)]))"

definition case_nicehash_default :: "ext \<Rightarrow> Session \<Rightarrow> rng \<Rightarrow> StratumReq \<Rightarrow> handled" where
  "case_nicehash_default e cs r req =
     (let errReply = handleUnknownRPC e cs (Method req)
      in sent r (sendStratumError e cs (Id req)
                   (JArr [JStr (Itoa e (Code errReply)), JStr (Message errReply)])))"

definition case_eth_getWork :: "ext \<Rightarrow> Session \<Rightarrow> rng \<Rightarrow> StratumReq \<Rightarrow> handled" where
  "case_eth_getWork e cs r req =
     (case handleGetWorkRPC e cs of
        (reply, Some errReply) \<Rightarrow> sent r (sendTCPError e cs (Id req) errReply)
      | (reply, None) \<Rightarrow> sent r (sendTCPResult e cs (Id req) (JArr (map JStr reply))))"

definition case_eth_submitWork :: "ext \<Rightarrow> Session \<Rightarrow> rng \<Rightarrow> StratumReq \<Rightarrow> handled" where
  "case_eth_submitWork e cs r req =
     (case unmarshalParams (Params req) of
        Inl err \<Rightarrow> Inr (Some err, cs, r)
      | Inr params \<Rightarrow>
          if length params < 3 \<or> length (params ! 0) \<noteq> 18 \<or> length (params ! 1) \<noteq> 66
             \<or> length (params ! 2) \<noteq> 66
          then Inr (None, cs, r)
          else
            (case handleTCPSubmitRPC e cs (Worker req) params of
               (reply, Some errReply) \<Rightarrow> sent r (sendTCPError e cs (Id req) errReply)
             | (reply, None) \<Rightarrow> sent r (sendTCPResult e cs (Id req) (JBool reply))))"

definition case_eth_submitHashrate :: "ext \<Rightarrow> Session \<Rightarrow> rng \<Rightarrow> StratumReq \<Rightarrow> handled" where
  "case_eth_submitHashrate e cs r req =
     (case unmarshalParams (Params req) of
        Inl err \<Rightarrow> Inr (Some err, cs, r)
      | Inr params \<Rightarrow>
          if length params < 2 then Inr (None, cs, r)
          else
            (let hashrateStr = params ! 0 in
             if take 2 hashrateStr \<noteq> ''0x''
             then Inr (Some (ErrorsNew ''Malformed hashrate value''), cs, r)
             else
               (case ParseInt16 e (drop 2 hashrateStr) of
                  Inl err \<Rightarrow> Inr (Some err, cs, r)
                | Inr hashrate \<Rightarrow> sent r (sendTCPResult e cs (Id req) (JBool True)))))"

definition case_unknown :: "ext \<Rightarrow> Session \<Rightarrow> rng \<Rightarrow> StratumReq \<Rightarrow> handled" where
  "case_unknown e cs r req =
     (let errReply = handleUnknownRPC e cs (Method req)
      in sent r (sendTCPError e cs (Id req) errReply))"

definition handleTCPMessage :: "ext \<Rightarrow> Session \<Rightarrow> rng \<Rightarrow> StratumReq \<Rightarrow> handled" where
  "handleTCPMessage e cs r req =
     (if Method req = ''eth_login'' then case_eth_login e cs r req
      else if Method req = ''eth_submitLogin'' then case_eth_submitLogin e cs r req
      else if Method req = ''mining.subscribe'' then case_mining_subscribe e cs r req
      else if stratumMode cs \<noteq> 0 \<and> stratumMode cs \<noteq> 1 then case_unknown e cs r req
      else if stratumMode cs = NiceHash then
        (if Method req = ''mining.authorize'' then case_mining_authorize e cs r req
         else if Method req = ''mining.extranonce.subscribe''
           then case_mining_extranonce_subscribe e cs r req
         else if Method req = ''mining.submit'' then case_mining_submit e cs r req
         else case_nicehash_default e cs r req)
      else
        (if Method req = ''eth_getWork'' then case_eth_getWork e cs r req
         else if Method req = ''eth_submitWork'' then case_eth_submitWork e cs r req
         else if Method req = ''eth_submitHashrate'' then case_eth_submitHashrate e cs r req
         else case_unknown e cs r req))"

subsection \<open>The life of a session\<close>

text \<open>
  What happens to one session: a request handled by the reader, or a job pushed by the
  broadcaster. Each comes with the collaborators' answers at that moment. The reader stops
  at the first error a handler returns, and a failed push removes the session.
\<close>

datatype step = Request StratumReq | NewJob "string list"

definition step :: "ext \<Rightarrow> Session \<Rightarrow> rng \<Rightarrow> step \<Rightarrow> handled" where
  "step e cs r st =
     (case st of Request req \<Rightarrow> handleTCPMessage e cs r req | NewJob t \<Rightarrow> pushNewJob e cs r t)"

fun run :: "Session \<Rightarrow> rng \<Rightarrow> (ext \<times> step) list \<Rightarrow> handled" where
  "run cs r [] = Inr (None, cs, r)"
| "run cs r ((e, st) # rest) =
     (case step e cs r st of
        Inl p \<Rightarrow> Inl p
      | Inr (Some err, cs', r') \<Rightarrow> Inr (Some err, cs', r')
      | Inr (None, cs', r') \<Rightarrow> run cs' r' rest)"

subsection \<open>The server: registry, session table, reader\<close>

text \<open>
  The session table is keyed by the session's pointer, an address here. The policy is a
  collaborator: the calls made to it are recorded in order.
\<close>

type_synonym addr = nat

datatype policy_call = BanClient string | ApplyMalformedPolicy string

record ProxyServer =
  Extranonces :: "string \<rightharpoonup> bool"
  sessions :: "addr set"
  policy :: "policy_call list"

definition registerSession :: "ProxyServer \<Rightarrow> addr \<Rightarrow> ProxyServer" where
  "registerSession s p = s\<lparr>sessions := insert p (sessions s)\<rparr>"

definition removeSession :: "ProxyServer \<Rightarrow> addr \<Rightarrow> Session \<Rightarrow> ProxyServer" where
  "removeSession s p cs =
     s\<lparr> Extranonces := (Extranonces s)(Extranonce cs := None), sessions := sessions s - {p} \<rparr>"

text \<open>
  One result of \<open>connbuff.ReadLine()\<close>. The library returns \<open>isPrefix = true\<close> with a nil
  error when the line does not fit the buffer of \<open>MaxReqSize\<close> bytes.
\<close>

record readLine =
  data :: string
  isPrefix :: bool
  rerr :: "error option"

text \<open>
  How \<open>handleTCPClient\<close> ended: the \<open>return\<close> or \<open>break\<close> taken, with the error returned;
  \<open>Reading\<close> when the reads supplied so far are used up and the loop waits for the next.
\<close>

datatype exit_path = Oversized | Disconnected | ReadFailed | MalformedJSON | HandlerFailed

datatype outcome = Reading | Returned exit_path "error option"

type_synonym served = "panic + (outcome \<times> ProxyServer \<times> Session \<times> rng)"

fun handleTCPClient ::
  "ProxyServer \<Rightarrow> addr \<Rightarrow> Session \<Rightarrow> rng \<Rightarrow> (ext \<times> readLine) list \<Rightarrow> served" where
  "handleTCPClient s p cs r [] = Inr (Reading, s, cs, r)"
| "handleTCPClient s p cs r ((e, ln) # rest) =
     (if isPrefix ln then
        Inr (Returned Oversized (rerr ln), s\<lparr>policy := policy s @ [BanClient (ip cs)]\<rparr>, cs, r)
      else if rerr ln = Some EOF then
        Inr (Returned Disconnected None, removeSession s p cs, cs, r)
      else
        (case rerr ln of
           Some err \<Rightarrow> Inr (Returned ReadFailed (Some err), s, cs, r)
         | None \<Rightarrow>
             if length (data ln) > 1 then
               (case UnmarshalReq e (data ln) of
                  Inl err \<Rightarrow>
                    Inr (Returned MalformedJSON (Some err),
                         s\<lparr>policy := policy s @ [ApplyMalformedPolicy (ip cs)]\<rparr>, cs, r)
                | Inr req \<Rightarrow>
                    (case handleTCPMessage e cs r req of
                       Inl pn \<Rightarrow> Inl pn
                     | Inr (Some err, cs', r') \<Rightarrow> Inr (Returned HandlerFailed (Some err), s, cs', r')
                     | Inr (None, cs', r') \<Rightarrow> handleTCPClient s p cs' r' rest))
             else handleTCPClient s p cs r rest))"

text \<open>
  The goroutine that \<open>ListenTCP\<close> starts for a session: it removes the session and closes
  the connection when \<open>handleTCPClient\<close> returns a non-nil error.
\<close>

definition ListenTCP_serve ::
  "ProxyServer \<Rightarrow> addr \<Rightarrow> Session \<Rightarrow> rng \<Rightarrow> (ext \<times> readLine) list \<Rightarrow> served" where
  "ListenTCP_serve s p cs r lns =
     (case handleTCPClient s p cs r lns of
        Inl pn \<Rightarrow> Inl pn
      | Inr (Returned path (Some err), s', cs', r') \<Rightarrow>
          Inr (Returned path (Some err), removeSession s' p cs', cs'\<lparr>conn_closed := True\<rparr>, r')
      | Inr (oc, s', cs', r') \<Rightarrow> Inr (oc, s', cs', r'))"

subsection \<open>Issuing extranonces\<close>

text \<open>
  The retry loop of \<open>uniqExtranonce\<close> has no bound in the source: it is a partial function,
  and \<open>None\<close> means that it never returns.
\<close>

partial_function (option) uniqExtranonce_loop ::
  "(string \<rightharpoonup> bool) \<Rightarrow> string \<Rightarrow> rng \<Rightarrow> (string \<times> rng) option" where
  "uniqExtranonce_loop m extranonce r =
     (if m extranonce \<noteq> None
      then (case randomHex 4 r of (extranonce', r') \<Rightarrow> uniqExtranonce_loop m extranonce' r')
      else Some (extranonce, r))"

definition uniqExtranonce :: "ProxyServer \<Rightarrow> rng \<Rightarrow> (string \<times> ProxyServer \<times> rng) option" where
  "uniqExtranonce s r =
     (case randomHex 4 r of (extranonce, r') \<Rightarrow>
        (case uniqExtranonce_loop (Extranonces s) extranonce r' of
           None \<Rightarrow> None
         | Some (x, r'') \<Rightarrow> Some (x, s\<lparr>Extranonces := (Extranonces s)(x \<mapsto> True)\<rparr>, r'')))"

section \<open>Predicates and concrete inputs used by the properties\<close>

text \<open>The fields of a session that no handler and no write touches.\<close>

definition unchanged :: "Session \<Rightarrow> Session \<Rightarrow> bool" where
  "unchanged cs cs' =
     (staleJobs cs' = staleJobs cs \<and> staleJobIDs cs' = staleJobIDs cs \<and>
      Extranonce cs' = Extranonce cs \<and> ip cs' = ip cs \<and> conn_closed cs' = conn_closed cs)"

definition kept :: "Session \<Rightarrow> Session \<Rightarrow> bool" where
  "kept cs cs' = (unchanged cs cs' \<and> stratum cs' = stratum cs)"

text \<open>The invariant of the stale cache: every cached key is recorded in the order list.\<close>

definition stale_inv :: "Session \<Rightarrow> bool" where
  "stale_inv cs =
     (dom (staleJobs cs) \<subseteq> set (staleJobIDs cs) \<and> length (staleJobIDs cs) \<le> 11)"

text \<open>The requests that write the dialect field.\<close>

definition selecting :: "step \<Rightarrow> bool" where
  "selecting st =
     (case st of
        Request req \<Rightarrow> Method req = ''eth_submitLogin'' \<or> Method req = ''mining.subscribe''
      | NewJob t \<Rightarrow> False)"

text \<open>A generator that yields the given draws first.\<close>

fun feed :: "nat list \<Rightarrow> rng \<Rightarrow> rng" where
  "feed [] r = r"
| "feed (d # ds) r = (\<lambda>i. case i of 0 \<Rightarrow> d | Suc j \<Rightarrow> feed ds r j)"

text \<open>
  Collaborators for the concrete runs: login and share submission succeed, every write
  succeeds, a block template at height 1 is present; the printing helpers are given at the
  values they are applied to.
\<close>

definition demo_ext :: ext where
  "demo_ext =
     \<lparr> handleLoginRPC = (\<lambda>cs params wid. (True, None)),
       handleGetWorkRPC = (\<lambda>cs. ([''0xh1'', ''0xs1'', ''0x01'', ''0x1''], None)),
       handleTCPSubmitRPC = (\<lambda>cs wid params. (True, None)),
       handleUnknownRPC = (\<lambda>cs m. \<lparr> Code = -3, Message = ''Method not found'' \<rparr>),
       currentBlockTemplate = Some \<lparr> Header = ''0xh1'', Seed = ''0xs1'', blockHeight = 1 \<rparr>,
       Encode = (\<lambda>n m. None),
       Algo = ''etchash'',
       Difficulty = 2000000000,
       ToHex1 = (\<lambda>n. ''0x1''),
       runeString = (\<lambda>n. ''?''),
       Itoa = (\<lambda>n. ''-3''),
       ParseInt16 = (\<lambda>s. Inr 0),
       UnmarshalReq = (\<lambda>s. Inl JsonError) \<rparr>"

definition subscribe_req :: StratumReq where
  "subscribe_req =
     \<lparr> Id = ''1'', Method = ''mining.subscribe'',
       Params = Strings [''miner/1'', ''EthereumStratum/1.0.0''], Worker = [] \<rparr>"

definition submitLogin_req :: StratumReq where
  "submitLogin_req =
     \<lparr> Id = ''2'', Method = ''eth_submitLogin'', Params = Strings [''0xabc'', ''x''],
       Worker = [] \<rparr>"

definition work :: "string list" where
  "work = [''0xh1'', ''0xs1'', ''0x01'', ''0x1'']"

definition draws :: "nat list" where
  "draws =
     [0,0,0,0,0,0,0,0, 0,0,0,0,0,0,0,0, 0,0,0,0,0,0,0,0,
      1,1,1,1,1,1,1,1, 2,2,2,2,2,2,2,2, 3,3,3,3,3,3,3,3, 4,4,4,4,4,4,4,4,
      5,5,5,5,5,5,5,5, 6,6,6,6,6,6,6,6, 7,7,7,7,7,7,7,7, 8,8,8,8,8,8,8,8,
      9,9,9,9,9,9,9,9, 10,10,10,10,10,10,10,10, 11,11,11,11,11,11,11,11,
      12,12,12,12,12,12,12,12]"

definition demo_rng :: rng where
  "demo_rng = feed draws (\<lambda>i. 0)"

definition demo_session :: Session where
  "demo_session = newSession ''10.0.0.1'' ''00af''"

text \<open>A subscription followed by eleven, respectively twelve, broadcast jobs.\<close>

definition steps11 :: "(ext \<times> step) list" where
  "steps11 =
     [(demo_ext, Request subscribe_req),
      (demo_ext, NewJob work), (demo_ext, NewJob work), (demo_ext, NewJob work),
      (demo_ext, NewJob work), (demo_ext, NewJob work), (demo_ext, NewJob work),
      (demo_ext, NewJob work), (demo_ext, NewJob work), (demo_ext, NewJob work),
      (demo_ext, NewJob work), (demo_ext, NewJob work)]"

definition steps12 :: "(ext \<times> step) list" where
  "steps12 = steps11 @ [(demo_ext, NewJob work)]"

text \<open>The method names with a \<open>case\<close> in \<open>handleTCPMessage\<close>, by the dialect that reaches them.\<close>

definition common_methods :: "string list" where
  "common_methods = [''eth_login'', ''eth_submitLogin'', ''mining.subscribe'']"

definition nicehash_methods :: "string list" where
  "nicehash_methods = [''mining.authorize'', ''mining.extranonce.subscribe'', ''mining.submit'']"

definition ethproxy_methods :: "string list" where
  "ethproxy_methods = [''eth_getWork'', ''eth_submitWork'', ''eth_submitHashrate'']"

definition hasHandler :: "int \<Rightarrow> string \<Rightarrow> bool" where
  "hasHandler mode m =
     (m \<in> set common_methods \<or> mode = NiceHash \<and> m \<in> set nicehash_methods \<or>
      mode = EthProxy \<and> m \<in> set ethproxy_methods)"

text \<open>The two replies to an unknown method: the Stratum shape and the JSON-RPC 2.0 shape.\<close>

definition unknownStratumReply :: "ext \<Rightarrow> Session \<Rightarrow> StratumReq \<Rightarrow> message" where
  "unknownStratumReply e cs req =
     JSONRpcResp (Id req) [] JNull
       (JArr [JStr (Itoa e (Code (handleUnknownRPC e cs (Method req)))),
              JStr (Message (handleUnknownRPC e cs (Method req)))])"

definition unknownRpcReply :: "ext \<Rightarrow> Session \<Rightarrow> StratumReq \<Rightarrow> message" where
  "unknownRpcReply e cs req =
     JSONRpcResp (Id req) ''2.0'' JNull
       (JErrorReply (Code (handleUnknownRPC e cs (Method req)))
                    (Message (handleUnknownRPC e cs (Method req))))"

definition foo_req :: StratumReq where
  "foo_req = \<lparr> Id = ''7'', Method = ''foo'', Params = Strings [], Worker = [] \<rparr>"





text \<open>A subscribed NiceHash session with a current job and one cached stale job.\<close>

definition nh_session :: Session where
  "nh_session =
     demo_session\<lparr> stratum := NiceHash, ExtranonceSub := True,
       JobDetails :=
         \<lparr> JobID = ''11111111'', SeedHash = ''s2'', HeaderHash = ''h2'', Height = ''0x2'' \<rparr>,
       staleJobs := [''00000000'' \<mapsto> \<lparr> staleSeedHash = ''s1'', staleHeaderHash = ''h1'' \<rparr>],
       staleJobIDs := [''00000000''] \<rparr>"





definition short_submitWork :: StratumReq where
  "short_submitWork =
     \<lparr> Id = ''9'', Method = ''eth_submitWork'', Params = Strings [''0x01''],
       Worker = ''rig1'' \<rparr>"

text \<open>A server holding the demo session, and four results of \<open>ReadLine\<close>.\<close>

definition demo_server :: ProxyServer where
  "demo_server = \<lparr> Extranonces = [''00af'' \<mapsto> True], sessions = {1}, policy = [] \<rparr>"


definition long_line :: readLine where
  "long_line = \<lparr> data = replicate 1024 CHR ''a'', isPrefix = True, rerr = None \<rparr>"



definition foo_bytes :: string where
  \<open>foo_bytes = ''{"id":7,"method":"foo","params":[]}''\<close>


text \<open>The collaborators again, with a decoder that reads \<open>foo_line\<close> as \<open>foo_req\<close>.\<close>

definition reader_ext :: ext where
  "reader_ext =
     demo_ext\<lparr> UnmarshalReq := (\<lambda>s. if s = foo_bytes then Inr foo_req else Inl JsonError) \<rparr>"

text \<open>
  Extranonces: the shape of an issued value, the successive candidates that
  \<open>uniqExtranonce\<close> draws, a registry with one held value and a generator whose first
  candidate collides with it, and the registry that holds every value.
\<close>

definition isHex4 :: "string \<Rightarrow> bool" where
  "isHex4 x = (length x = 4 \<and> set x \<subseteq> set chars)"

fun candidate :: "nat \<Rightarrow> rng \<Rightarrow> string \<times> rng" where
  "candidate 0 r = randomHex 4 r"
| "candidate (Suc k) r = candidate k (snd (randomHex 4 r))"

definition collide_server :: ProxyServer where
  "collide_server = \<lparr> Extranonces = [''0000'' \<mapsto> True], sessions = {}, policy = [] \<rparr>"

definition collide_rng :: rng where
  "collide_rng = feed [0, 0, 0, 0, 0, 0, 10, 15] (\<lambda>i. 0)"

definition full_server :: ProxyServer where
  "full_server =
     \<lparr> Extranonces = (\<lambda>x. if isHex4 x then Some True else None), sessions = {},
       policy = [] \<rparr>"

section \<open>Properties\<close>

subsection \<open>Evaluation of the concrete runs\<close>

lemma Intn_feed: "Intn n (feed (d # ds) r) = (d mod n, feed ds r)"
  by (simp add: Intn_def)

lemma randomHex_feed:
  "k \<le> length ds \<Longrightarrow>
   randomHex k (feed ds r) = (map (\<lambda>d. chars ! (d mod 16)) (take k ds), feed (drop k ds) r)"
proof (induction k arbitrary: ds)
  case 0
  then show ?case by simp
next
  case (Suc k)
  then obtain d ds' where ds: "ds = d # ds'" by (cases ds) auto
  with Suc.prems have "k \<le> length ds'" by simp
  from Suc.IH [OF this] show ?case
    unfolding ds by (simp add: Intn_feed chars_def del: feed.simps)
qed

lemmas eval_defs =
  handleTCPMessage_def case_mining_subscribe_def case_eth_submitLogin_def case_unknown_def
  unmarshalParams_def setStratumMode_def getNotificationResponse_def randomHex_feed
  stratumMode_def NiceHash_def EthProxy_def sent_def sendStratumResult_def sendTCPResult_def
  sendTCPError_def sendStratumError_def sendTCPReq_def encode_def chars_def newSession_def
  step_def pushNewJob_def cacheStales_def storeStale_def newJobDetails_def strip0x_def
  sliceTo2_def sliceFrom2_def notify_def Let_def
  demo_ext_def demo_rng_def demo_session_def subscribe_req_def submitLogin_req_def work_def
  draws_def

subsection \<open>What the handlers leave alone\<close>

lemma encode_kept: "encode e cs m = (err, cs') \<Longrightarrow> kept cs cs'"
  by (auto simp: encode_def kept_def unchanged_def split: option.splits)

lemma sendTCPResult_kept: "sendTCPResult e cs rid v = (err, cs') \<Longrightarrow> kept cs cs'"
  by (auto simp: sendTCPResult_def dest: encode_kept)

lemma sendStratumResult_kept: "sendStratumResult e cs rid v = (err, cs') \<Longrightarrow> kept cs cs'"
  by (auto simp: sendStratumResult_def dest: encode_kept)

lemma sendStratumError_kept: "sendStratumError e cs rid v = (err, cs') \<Longrightarrow> kept cs cs'"
  by (auto simp: sendStratumError_def dest: encode_kept)

lemma sendTCPReq_kept: "sendTCPReq e cs v = (err, cs') \<Longrightarrow> kept cs cs'"
  by (auto simp: sendTCPReq_def dest: encode_kept)

lemma sendTCPError_kept: "sendTCPError e cs rid v = (err, cs') \<Longrightarrow> kept cs cs'"
  by (auto simp: sendTCPError_def split: prod.splits option.splits dest: encode_kept)

lemmas send_kept = sendTCPResult_kept sendStratumResult_kept sendStratumError_kept
  sendTCPReq_kept sendTCPError_kept

lemma sendJob_kept: "sendJob e cs r rid nj = Inr (err, cs', r') \<Longrightarrow> kept cs cs'"
  apply (auto simp: sendJob_def Let_def
      split: prod.splits sum.splits option.splits if_splits dest!: send_kept)
  apply (auto simp: kept_def unchanged_def)
  done

lemma case_eth_login_kept: "case_eth_login e cs r req = Inr (err, cs', r') \<Longrightarrow> kept cs cs'"
  apply (auto simp: case_eth_login_def sent_def
      split: prod.splits sum.splits option.splits if_splits dest!: send_kept)
  apply (auto simp: kept_def unchanged_def)
  done

lemma case_eth_submitLogin_kept:
  "case_eth_submitLogin e cs r req = Inr (err, cs', r') \<Longrightarrow>
     unchanged cs cs' \<and> (stratum cs' = stratum cs \<or> stratum cs' = EthProxy)"
  apply (auto simp: case_eth_submitLogin_def sent_def setStratumMode_def
      split: prod.splits sum.splits option.splits if_splits dest!: send_kept)
  apply (auto simp: kept_def unchanged_def)
  done

lemma case_mining_subscribe_kept:
  "case_mining_subscribe e cs r req = Inr (err, cs', r') \<Longrightarrow>
     unchanged cs cs' \<and> (stratum cs' = stratum cs \<or> stratum cs' = NiceHash)"
  apply (auto simp: case_mining_subscribe_def sent_def setStratumMode_def Let_def
      split: prod.splits sum.splits option.splits if_splits dest!: send_kept)
  apply (auto simp: kept_def unchanged_def)
  done

lemma case_mining_authorize_kept:
  "case_mining_authorize e cs r req = Inr (err, cs', r') \<Longrightarrow> kept cs cs'"
  apply (auto simp: case_mining_authorize_def sent_def Let_def
      split: prod.splits sum.splits option.splits if_splits dest!: send_kept sendJob_kept)
  apply (auto simp: kept_def unchanged_def)
  done

lemma case_mining_extranonce_subscribe_kept:
  "case_mining_extranonce_subscribe e cs r req = Inr (err, cs', r') \<Longrightarrow> kept cs cs'"
  apply (auto simp: case_mining_extranonce_subscribe_def sent_def Let_def
      split: prod.splits sum.splits option.splits if_splits dest!: send_kept)
  apply (auto simp: kept_def unchanged_def)
  done

lemma submitShare_kept: "submitShare e cs r rid wid ps = Inr (err, cs', r') \<Longrightarrow> kept cs cs'"
  by (auto simp: submitShare_def sent_def split: prod.splits option.splits dest!: send_kept)

lemma case_mining_submit_kept:
  "case_mining_submit e cs r req = Inr (err, cs', r') \<Longrightarrow> kept cs cs'"
  apply (auto simp: case_mining_submit_def sent_def Let_def
      split: prod.splits sum.splits option.splits if_splits
      dest!: send_kept sendJob_kept submitShare_kept)
  apply (auto simp: kept_def unchanged_def)
  done

lemma case_nicehash_default_kept:
  "case_nicehash_default e cs r req = Inr (err, cs', r') \<Longrightarrow> kept cs cs'"
  by (auto simp: case_nicehash_default_def sent_def Let_def split: prod.splits dest!: send_kept)

lemma case_eth_getWork_kept: "case_eth_getWork e cs r req = Inr (err, cs', r') \<Longrightarrow> kept cs cs'"
  by (auto simp: case_eth_getWork_def sent_def split: prod.splits option.splits dest!: send_kept)

lemma case_eth_submitWork_kept:
  "case_eth_submitWork e cs r req = Inr (err, cs', r') \<Longrightarrow> kept cs cs'"
  apply (auto simp: case_eth_submitWork_def sent_def
      split: prod.splits sum.splits option.splits if_splits dest!: send_kept)
  apply (auto simp: kept_def unchanged_def)
  done

lemma case_eth_submitHashrate_kept:
  "case_eth_submitHashrate e cs r req = Inr (err, cs', r') \<Longrightarrow> kept cs cs'"
  apply (auto simp: case_eth_submitHashrate_def sent_def Let_def
      split: prod.splits sum.splits option.splits if_splits dest!: send_kept)
  apply (auto simp: kept_def unchanged_def)
  done

lemma case_unknown_kept: "case_unknown e cs r req = Inr (err, cs', r') \<Longrightarrow> kept cs cs'"
  by (auto simp: case_unknown_def sent_def Let_def split: prod.splits dest!: send_kept)

lemmas case_kept = case_eth_login_kept case_mining_authorize_kept
  case_mining_extranonce_subscribe_kept case_mining_submit_kept case_nicehash_default_kept
  case_eth_getWork_kept case_eth_submitWork_kept case_eth_submitHashrate_kept case_unknown_kept

lemma handleTCPMessage_mode:
  assumes "handleTCPMessage e cs r req = Inr (err, cs', r')"
  shows "unchanged cs cs' \<and>
         (stratum cs' = stratum cs \<or>
          Method req = ''eth_submitLogin'' \<and> stratum cs' = EthProxy \<or>
          Method req = ''mining.subscribe'' \<and> stratum cs' = NiceHash)"
proof -
  consider (a) "Method req = ''eth_submitLogin''" | (b) "Method req = ''mining.subscribe''"
    | (c) "Method req \<noteq> ''eth_submitLogin''" "Method req \<noteq> ''mining.subscribe''" by blast
  then show ?thesis
  proof cases
    case a
    with assms have "case_eth_submitLogin e cs r req = Inr (err, cs', r')"
      by (simp add: handleTCPMessage_def)
    from case_eth_submitLogin_kept [OF this] a show ?thesis by blast
  next
    case b
    with assms have "case_mining_subscribe e cs r req = Inr (err, cs', r')"
      by (simp add: handleTCPMessage_def)
    from case_mining_subscribe_kept [OF this] b show ?thesis by blast
  next
    case c
    with assms have "kept cs cs'"
      by (auto simp: handleTCPMessage_def split: if_splits dest: case_kept)
    then show ?thesis by (simp add: kept_def)
  qed
qed

subsection \<open>The stale cache\<close>

lemma dom_fold_delete: "dom (fold (\<lambda>v m. m(v := None)) del m) = dom m - set del"
  by (induction del arbitrary: m) auto

lemma storeStale_inv:
  "dom (staleJobs cs) \<subseteq> set (staleJobIDs cs) \<Longrightarrow> length (staleJobIDs cs) \<le> 10 \<Longrightarrow>
   stale_inv (storeStale cs)"
  by (auto simp: stale_inv_def storeStale_def)

lemma cacheStales_10_3: "\<exists>cs'. cacheStales 10 3 cs = Inr cs'"
  by (simp add: cacheStales_def Let_def)

lemma cacheStales_inv:
  assumes "stale_inv cs" and "cacheStales 10 3 cs = Inr cs'"
  shows "stale_inv cs'"
proof (cases "int (length (staleJobIDs cs)) > 10")
  case True
  let ?ids = "staleJobIDs cs"
  let ?k = "nat (int (length ?ids) - 3)"
  let ?cs1 = "cs\<lparr> staleJobs := fold (\<lambda>v m. m(v := None)) (take ?k ?ids) (staleJobs cs),
                  staleJobIDs := drop ?k ?ids \<rparr>"
  from True assms(2) have eq: "cs' = storeStale ?cs1"
    by (simp add: cacheStales_def Let_def)
  have "set ?ids = set (take ?k ?ids) \<union> set (drop ?k ?ids)"
    by (metis append_take_drop_id set_append)
  with assms(1) have "dom (staleJobs ?cs1) \<subseteq> set (staleJobIDs ?cs1)"
    by (auto simp: stale_inv_def dom_fold_delete)
  moreover from True assms(1) have "length (staleJobIDs ?cs1) \<le> 10"
    by (simp add: stale_inv_def)
  ultimately show ?thesis unfolding eq by (rule storeStale_inv)
next
  case False
  with assms(2) have "cs' = storeStale cs" by (simp add: cacheStales_def Let_def)
  moreover from False assms(1)
  have "dom (staleJobs cs) \<subseteq> set (staleJobIDs cs)" "length (staleJobIDs cs) \<le> 10"
    by (simp_all add: stale_inv_def)
  ultimately show ?thesis by (simp add: storeStale_inv)
qed

lemma stale_inv_card: "stale_inv cs \<Longrightarrow> card (dom (staleJobs cs)) \<le> 11"
proof -
  assume a: "stale_inv cs"
  then have "card (dom (staleJobs cs)) \<le> card (set (staleJobIDs cs))"
    by (simp add: stale_inv_def card_mono)
  also have "\<dots> \<le> length (staleJobIDs cs)" by (rule card_length)
  also from a have "\<dots> \<le> 11" by (simp add: stale_inv_def)
  finally show ?thesis .
qed

lemma unchanged_stale_inv: "unchanged cs cs' \<Longrightarrow> stale_inv cs \<Longrightarrow> stale_inv cs'"
  by (simp add: unchanged_def stale_inv_def)

lemma cacheStales_frame:
  "cacheStales mx n cs = Inr cs' \<Longrightarrow>
   stratum cs' = stratum cs \<and> Extranonce cs' = Extranonce cs \<and> ip cs' = ip cs \<and>
   conn_closed cs' = conn_closed cs"
  by (auto simp: cacheStales_def storeStale_def Let_def split: if_splits)

lemma pushNewJob_inv:
  assumes "stale_inv cs" and "pushNewJob e cs r t = Inr (err, cs', r')"
  shows "stale_inv cs' \<and> stratum cs' = stratum cs"
proof (cases "stratumMode cs = NiceHash")
  case True
  with assms(2) obtain cs1 jd m where c: "cacheStales 10 3 cs = Inr cs1"
    and e: "encode e (cs1\<lparr>JobDetails := jd\<rparr>) m = (err, cs')"
    by (auto simp: pushNewJob_def split: sum.splits prod.splits option.splits)
  from cacheStales_inv [OF assms(1) c] have "stale_inv (cs1\<lparr>JobDetails := jd\<rparr>)"
    by (simp add: stale_inv_def)
  moreover from encode_kept [OF e] have k: "kept (cs1\<lparr>JobDetails := jd\<rparr>) cs'" .
  ultimately have "stale_inv cs'" by (auto simp: kept_def intro: unchanged_stale_inv)
  moreover from k cacheStales_frame [OF c] have "stratum cs' = stratum cs"
    by (simp add: kept_def)
  ultimately show ?thesis by simp
next
  case False
  with assms(2) obtain m where "encode e cs m = (err, cs')"
    by (auto simp: pushNewJob_def split: prod.splits)
  from encode_kept [OF this] assms(1) show ?thesis
    by (auto simp: kept_def intro: unchanged_stale_inv)
qed

lemma step_inv:
  assumes "stale_inv cs" and "step e cs r st = Inr (err, cs', r')"
  shows "stale_inv cs'"
proof (cases st)
  case (Request req)
  with assms(2) have "handleTCPMessage e cs r req = Inr (err, cs', r')" by (simp add: step_def)
  from handleTCPMessage_mode [OF this] assms(1) show ?thesis
    by (auto intro: unchanged_stale_inv)
next
  case (NewJob t)
  with assms(2) have "pushNewJob e cs r t = Inr (err, cs', r')" by (simp add: step_def)
  from pushNewJob_inv [OF assms(1) this] show ?thesis by simp
qed

lemma run_inv: "stale_inv cs \<Longrightarrow> run cs r steps = Inr (err, cs', r') \<Longrightarrow> stale_inv cs'"
proof (induction steps arbitrary: cs r)
  case Nil
  then show ?case by simp
next
  case (Cons x steps)
  obtain e st where x: "x = (e, st)" by (cases x)
  show ?case
  proof (cases "step e cs r st")
    case (Inl p)
    with Cons.prems(2) x show ?thesis by simp
  next
    case (Inr res)
    obtain er cs1 r1 where res: "res = (er, cs1, r1)" by (cases res)
    from Inr res Cons.prems(1) have inv1: "stale_inv cs1" by (auto dest: step_inv)
    show ?thesis
    proof (cases er)
      case None
      with Inr res x Cons.prems(2) have "run cs1 r1 steps = Inr (err, cs', r')" by simp
      from Cons.IH [OF inv1 this] show ?thesis .
    next
      case (Some a)
      with Inr res x Cons.prems(2) have "cs' = cs1" by simp
      with inv1 show ?thesis by simp
    qed
  qed
qed

lemma newSession_inv: "stale_inv (newSession a x)"
  by (simp add: stale_inv_def newSession_def)

lemma run12:
  "\<exists>cs r'. run demo_session demo_rng steps12 = Inr (None, cs, r') \<and>
     staleJobIDs cs = [''88888888'', ''99999999'', ''aaaaaaaa'', ''bbbbbbbb''] \<and>
     card (dom (staleJobs cs)) = 4"
  by (simp add: eval_defs steps11_def steps12_def del: feed.simps)

text \<open>
  C1 (as amended). For every session created by \<open>ListenTCP\<close> and every sequence of requests
  and job pushes, the stale-job cache stays bounded, but by \<open>MAX_STALE + 1 = 11\<close>, not by
  \<open>MAX_STALE = 10\<close>: \<open>cacheStales 10 3\<close> tests \<open>l > max\<close> before it inserts the current job,
  so the map holds at most eleven entries (and is finite) after any number of steps.
\<close>

theorem stale_cache_bound:
  "run (newSession a x) r steps = Inr (err, cs, r') \<Longrightarrow>
   finite (dom (staleJobs cs)) \<and> card (dom (staleJobs cs)) \<le> 11"
proof -
  assume "run (newSession a x) r steps = Inr (err, cs, r')"
  from run_inv [OF newSession_inv this] have i: "stale_inv cs" .
  then have "finite (dom (staleJobs cs))" by (auto simp: stale_inv_def intro: finite_subset)
  with i show ?thesis by (simp add: stale_inv_card)
qed

text \<open>
  Witness: a subscription and twelve pushed jobs; the twelfth push evicts all but the last
  three cached jobs and inserts the current one.
\<close>

theorem stale_cache_bound_witness:
  "\<exists>cs r'. run demo_session demo_rng steps12 = Inr (None, cs, r') \<and>
     staleJobIDs cs = [''88888888'', ''99999999'', ''aaaaaaaa'', ''bbbbbbbb''] \<and>
     card (dom (staleJobs cs)) \<le> 11"
proof -
  from run12 obtain cs r' where a: "run demo_session demo_rng steps12 = Inr (None, cs, r')"
    and b: "staleJobIDs cs = [''88888888'', ''99999999'', ''aaaaaaaa'', ''bbbbbbbb'']" by blast
  from a have "run (newSession ''10.0.0.1'' ''00af'') demo_rng steps12 = Inr (None, cs, r')"
    by (simp add: demo_session_def)
  from stale_cache_bound [OF this] a b show ?thesis by blast
qed

text \<open>
  Counterexample to C1 as stated: after a subscription and eleven pushed jobs with distinct
  job ids the map holds eleven entries, more than \<open>MAX_STALE = 10\<close>.
\<close>

theorem stale_cache_eleven:
  "(case run demo_session demo_rng steps11 of
      Inl p \<Rightarrow> 0
    | Inr (err, cs, r) \<Rightarrow> card (dom (staleJobs cs))) = 11"
  by (simp add: eval_defs steps11_def del: feed.simps)

subsection \<open>The dialect field\<close>

lemma step_mode:
  assumes "step e cs r st = Inr (err, cs', r')"
  shows "stratum cs' = stratum cs \<or>
         selecting st \<and> (stratum cs' = EthProxy \<or> stratum cs' = NiceHash)"
proof (cases st)
  case (Request req)
  with assms have "handleTCPMessage e cs r req = Inr (err, cs', r')" by (simp add: step_def)
  from handleTCPMessage_mode [OF this] Request show ?thesis by (auto simp: selecting_def)
next
  case (NewJob t)
  with assms have p: "pushNewJob e cs r t = Inr (err, cs', r')" by (simp add: step_def)
  show ?thesis
  proof (cases "stratumMode cs = NiceHash")
    case True
    with p obtain cs1 jd m where c: "cacheStales 10 3 cs = Inr cs1"
      and e: "encode e (cs1\<lparr>JobDetails := jd\<rparr>) m = (err, cs')"
      by (auto simp: pushNewJob_def split: sum.splits prod.splits option.splits)
    from encode_kept [OF e] cacheStales_frame [OF c] show ?thesis by (simp add: kept_def)
  next
    case False
    with p obtain m where "encode e cs m = (err, cs')"
      by (auto simp: pushNewJob_def split: prod.splits)
    from encode_kept [OF this] show ?thesis by (simp add: kept_def)
  qed
qed

lemma run_mode:
  "run cs r steps = Inr (err, cs', r') \<Longrightarrow>
   (stratum cs' = stratum cs \<or> stratum cs' = EthProxy \<or> stratum cs' = NiceHash) \<and>
   ((\<forall>x\<in>set steps. \<not> selecting (snd x)) \<longrightarrow> stratum cs' = stratum cs)"
proof (induction steps arbitrary: cs r)
  case Nil
  then show ?case by simp
next
  case (Cons x steps)
  obtain e st where x: "x = (e, st)" by (cases x)
  show ?case
  proof (cases "step e cs r st")
    case (Inl p)
    with Cons.prems x show ?thesis by simp
  next
    case (Inr res)
    obtain er cs1 r1 where res: "res = (er, cs1, r1)" by (cases res)
    from Inr res
    have s1: "stratum cs1 = stratum cs \<or>
              selecting st \<and> (stratum cs1 = EthProxy \<or> stratum cs1 = NiceHash)"
      by (auto dest: step_mode)
    show ?thesis
    proof (cases er)
      case None
      with Inr res x Cons.prems have "run cs1 r1 steps = Inr (err, cs', r')" by simp
      from Cons.IH [OF this] s1 x show ?thesis by auto
    next
      case (Some a)
      with Inr res x Cons.prems have "cs' = cs1" by simp
      with s1 x show ?thesis by auto
    qed
  qed
qed

lemma submitLogin_sets:
  assumes "Method req = ''eth_submitLogin''" and "Params req = Strings (p # ps)"
    and "snd (handleLoginRPC e cs (p # ps) (Worker req)) = None"
  shows "\<exists>err cs'. handleTCPMessage e cs r req = Inr (err, cs', r) \<and> stratum cs' = EthProxy"
  using assms
  by (auto simp: handleTCPMessage_def case_eth_submitLogin_def unmarshalParams_def sent_def
      sendTCPResult_def encode_def setStratumMode_def split: prod.splits option.splits)

lemma subscribe_sets:
  assumes "Method req = ''mining.subscribe''" and "Params req = Strings (a # b # ps)"
    and "b = ''EthereumStratum/1.0.0'' \<or> a = ''GodMiner/2.0.0''"
  shows "\<exists>err cs' r'. handleTCPMessage e cs r req = Inr (err, cs', r') \<and> stratum cs' = NiceHash"
  using assms
  by (auto simp: handleTCPMessage_def case_mining_subscribe_def unmarshalParams_def sent_def
      sendStratumResult_def encode_def setStratumMode_def Let_def
      split: prod.splits option.splits)

lemma run_push_unset:
  "\<exists>cs r'. run demo_session demo_rng [(demo_ext, NewJob work)] = Inr (None, cs, r') \<and>
     stratum cs = - 1"
  by (simp add: eval_defs del: feed.simps(2))

lemma run_login_after_subscribe:
  "\<exists>cs r'. run nh_session demo_rng [(demo_ext, Request submitLogin_req)] = Inr (None, cs, r') \<and>
     stratum cs = 0"
  by (simp add: eval_defs nh_session_def del: feed.simps(2))

text \<open>
  C2 (as amended). The dialect field is not set at most once. Over any sequence of requests
  and job pushes it keeps its value or becomes EthProxy or NiceHash; once it is EthProxy or
  NiceHash it stays one of the two, so it never returns to Unset; and it changes only at an
  \<open>eth_submitLogin\<close> or a \<open>mining.subscribe\<close>. But each of those two writes it whatever it
  was before: an \<open>eth_submitLogin\<close> with at least one parameter and an accepted login sets
  EthProxy, and a \<open>mining.subscribe\<close> with an accepted version string sets NiceHash.
\<close>

theorem dialect_transitions:
  "(run cs r steps = Inr (err, cs', r') \<longrightarrow>
      (stratum cs' = stratum cs \<or> stratum cs' = EthProxy \<or> stratum cs' = NiceHash) \<and>
      (stratum cs \<in> {EthProxy, NiceHash} \<longrightarrow> stratum cs' \<in> {EthProxy, NiceHash}) \<and>
      ((\<forall>x\<in>set steps. \<not> selecting (snd x)) \<longrightarrow> stratum cs' = stratum cs)) \<and>
   (Method req = ''eth_submitLogin'' \<and> Params req = Strings (p # ps) \<and>
    snd (handleLoginRPC e cs (p # ps) (Worker req)) = None \<longrightarrow>
      (\<exists>err cs'. handleTCPMessage e cs r req = Inr (err, cs', r) \<and> stratum cs' = EthProxy)) \<and>
   (Method req' = ''mining.subscribe'' \<and> Params req' = Strings (a # b # ps') \<and>
    (b = ''EthereumStratum/1.0.0'' \<or> a = ''GodMiner/2.0.0'') \<longrightarrow>
      (\<exists>err cs' r'. handleTCPMessage e cs r req' = Inr (err, cs', r') \<and>
         stratum cs' = NiceHash))"
  using run_mode [of cs r steps err cs' r'] submitLogin_sets [of req p ps e cs r]
    subscribe_sets [of req' a b ps' e cs r]
  by auto

text \<open>
  Witness: a job pushed to a fresh session leaves the dialect Unset; a NiceHash session that
  receives a successful \<open>eth_submitLogin\<close> ends in EthProxy; a fresh session is set to
  EthProxy by \<open>eth_submitLogin\<close> and to NiceHash by \<open>mining.subscribe\<close>.
\<close>

theorem dialect_transitions_witness:
  "(\<exists>cs r'. run demo_session demo_rng [(demo_ext, NewJob work)] = Inr (None, cs, r') \<and>
      stratum cs = stratum demo_session) \<and>
   (\<exists>cs r'. run nh_session demo_rng [(demo_ext, Request submitLogin_req)] = Inr (None, cs, r') \<and>
      stratum cs \<in> {EthProxy, NiceHash}) \<and>
   (\<exists>err cs'. handleTCPMessage demo_ext demo_session demo_rng submitLogin_req =
      Inr (err, cs', demo_rng) \<and> stratum cs' = EthProxy) \<and>
   (\<exists>err cs' r'. handleTCPMessage demo_ext demo_session demo_rng subscribe_req =
      Inr (err, cs', r') \<and> stratum cs' = NiceHash)"
proof -
  from run_push_unset obtain cs1 r1 where
    a: "run demo_session demo_rng [(demo_ext, NewJob work)] = Inr (None, cs1, r1)" by blast
  from run_login_after_subscribe obtain cs2 r2 where
    b: "run nh_session demo_rng [(demo_ext, Request submitLogin_req)] = Inr (None, cs2, r2)"
    by blast
  have nh: "stratum nh_session \<in> {EthProxy, NiceHash}"
    by (simp add: nh_session_def)
  have sel: "\<forall>x\<in>set [(demo_ext, NewJob work)]. \<not> selecting (snd x)"
    by (simp add: selecting_def)
  have login: "Method submitLogin_req = ''eth_submitLogin'' \<and>
      Params submitLogin_req = Strings [''0xabc'', ''x''] \<and>
      snd (handleLoginRPC demo_ext demo_session [''0xabc'', ''x''] (Worker submitLogin_req)) = None"
    by (simp add: submitLogin_req_def demo_ext_def)
  have sub: "Method subscribe_req = ''mining.subscribe'' \<and>
      Params subscribe_req = Strings [''miner/1'', ''EthereumStratum/1.0.0'']"
    by (simp add: subscribe_req_def)
  from a sel
    dialect_transitions [of demo_session demo_rng "[(demo_ext, NewJob work)]" None cs1 r1
      submitLogin_req "''0xabc''" "[''x'']" demo_ext subscribe_req "''miner/1''"
      "''EthereumStratum/1.0.0''" "[]"]
  have c1: "stratum cs1 = stratum demo_session" by blast
  from b nh
    dialect_transitions [of nh_session demo_rng "[(demo_ext, Request submitLogin_req)]" None
      cs2 r2 submitLogin_req "''0xabc''" "[''x'']" demo_ext subscribe_req "''miner/1''"
      "''EthereumStratum/1.0.0''" "[]"]
  have c2: "stratum cs2 \<in> {EthProxy, NiceHash}" by blast
  from login sub
    dialect_transitions [of demo_session demo_rng "[]" None demo_session demo_rng
      submitLogin_req "''0xabc''" "[''x'']" demo_ext subscribe_req "''miner/1''"
      "''EthereumStratum/1.0.0''" "[]"]
  have c3: "(\<exists>err cs'. handleTCPMessage demo_ext demo_session demo_rng submitLogin_req =
      Inr (err, cs', demo_rng) \<and> stratum cs' = EthProxy) \<and>
   (\<exists>err cs' r'. handleTCPMessage demo_ext demo_session demo_rng subscribe_req =
      Inr (err, cs', r') \<and> stratum cs' = NiceHash)" by blast
  from a b c1 c2 c3 show ?thesis by blast
qed

text \<open>
  Counterexample to C2 as stated: a session that subscribed is in NiceHash; the same
  session, after a later \<open>eth_submitLogin\<close>, is in EthProxy. The field was set twice.
\<close>

theorem dialect_flips:
  "(case run demo_session demo_rng [(demo_ext, Request subscribe_req)] of
      Inl p \<Rightarrow> - 1 | Inr (err, cs, r) \<Rightarrow> stratum cs) = NiceHash \<and>
   (case run demo_session demo_rng
           [(demo_ext, Request subscribe_req), (demo_ext, Request submitLogin_req)] of
      Inl p \<Rightarrow> - 1 | Inr (err, cs, r) \<Rightarrow> stratum cs) = EthProxy"
  by (simp add: eval_defs del: feed.simps(2))

subsection \<open>Unknown methods\<close>

lemma unknown_nicehash:
  assumes "\<not> hasHandler (stratum cs) (Method req)" and "stratum cs = NiceHash"
  shows "handleTCPMessage e cs r req =
           (case Encode e (length (enc cs)) (unknownStratumReply e cs req) of
              None \<Rightarrow> Inr (None, cs\<lparr>enc := enc cs @ [unknownStratumReply e cs req]\<rparr>, r)
            | Some err \<Rightarrow> Inr (Some err, cs, r))"
  using assms
  by (simp add: hasHandler_def common_methods_def nicehash_methods_def handleTCPMessage_def
      stratumMode_def NiceHash_def case_nicehash_default_def Let_def sent_def
      sendStratumError_def encode_def unknownStratumReply_def split: option.splits)

lemma unknown_other:
  assumes "\<not> hasHandler (stratum cs) (Method req)" and "stratum cs \<noteq> NiceHash"
  shows "handleTCPMessage e cs r req =
           (case Encode e (length (enc cs)) (unknownRpcReply e cs req) of
              None \<Rightarrow> Inr (Some (ErrorsNew (Message (handleUnknownRPC e cs (Method req)))),
                            cs\<lparr>enc := enc cs @ [unknownRpcReply e cs req]\<rparr>, r)
            | Some err \<Rightarrow> Inr (Some err, cs, r))"
  using assms
  by (simp add: hasHandler_def common_methods_def ethproxy_methods_def handleTCPMessage_def
      stratumMode_def NiceHash_def EthProxy_def case_unknown_def Let_def sent_def
      sendTCPError_def encode_def unknownRpcReply_def split: option.splits)

text \<open>
  C3 (as amended). A request whose method has no handler for the session's dialect gets an
  error reply in every dialect state, but the session continues only in NiceHash: there the
  Stratum-shaped reply is written and the handler returns the result of the write, nil when
  it succeeds. In the Unset and EthProxy states the JSON-RPC reply goes through
  \<open>sendTCPError\<close>, which returns a non-nil error also after a successful write, so the
  handler returns an error and the reader loop ends the session.
\<close>

theorem unknown_method_reply:
  "\<not> hasHandler (stratum cs) (Method req) \<Longrightarrow>
   (stratum cs = NiceHash \<longrightarrow>
      handleTCPMessage e cs r req =
        (case Encode e (length (enc cs)) (unknownStratumReply e cs req) of
           None \<Rightarrow> Inr (None, cs\<lparr>enc := enc cs @ [unknownStratumReply e cs req]\<rparr>, r)
         | Some err \<Rightarrow> Inr (Some err, cs, r))) \<and>
   (stratum cs \<noteq> NiceHash \<longrightarrow>
      handleTCPMessage e cs r req =
        (case Encode e (length (enc cs)) (unknownRpcReply e cs req) of
           None \<Rightarrow> Inr (Some (ErrorsNew (Message (handleUnknownRPC e cs (Method req)))),
                         cs\<lparr>enc := enc cs @ [unknownRpcReply e cs req]\<rparr>, r)
         | Some err \<Rightarrow> Inr (Some err, cs, r)))"
  using unknown_nicehash [of cs req e r] unknown_other [of cs req e r] by blast

text \<open>Witness: the method \<open>foo\<close> sent to a NiceHash session and to an EthProxy session.\<close>

theorem unknown_method_reply_witness:
  "handleTCPMessage demo_ext (demo_session\<lparr>stratum := NiceHash\<rparr>) demo_rng foo_req =
     Inr (None,
          demo_session\<lparr>stratum := NiceHash,
            enc := [JSONRpcResp ''7'' [] JNull (JArr [JStr ''-3'', JStr ''Method not found''])]\<rparr>,
          demo_rng) \<and>
   handleTCPMessage demo_ext (demo_session\<lparr>stratum := EthProxy\<rparr>) demo_rng foo_req =
     Inr (Some (ErrorsNew ''Method not found''),
          demo_session\<lparr>stratum := EthProxy,
            enc := [JSONRpcResp ''7'' ''2.0'' JNull (JErrorReply (- 3) ''Method not found'')]\<rparr>,
          demo_rng)"
  using
    unknown_method_reply [of "demo_session\<lparr>stratum := NiceHash\<rparr>" foo_req demo_ext demo_rng]
    unknown_method_reply [of "demo_session\<lparr>stratum := EthProxy\<rparr>" foo_req demo_ext demo_rng]
  by (simp add: hasHandler_def common_methods_def nicehash_methods_def ethproxy_methods_def
      foo_req_def unknownStratumReply_def unknownRpcReply_def demo_ext_def demo_session_def
      newSession_def NiceHash_def EthProxy_def)

text \<open>
  Counterexample to C3 as stated: in the Unset state the handler writes the error reply to
  the method \<open>foo\<close> and returns the error \<open>Method not found\<close>, not nil.
\<close>

theorem unknown_method_ends_unset_session:
  "handleTCPMessage demo_ext demo_session demo_rng foo_req =
     Inr (Some (ErrorsNew ''Method not found''),
          demo_session\<lparr>enc :=
            [JSONRpcResp ''7'' ''2.0'' JNull (JErrorReply (- 3) ''Method not found'')]\<rparr>,
          demo_rng)"
  by (simp add: eval_defs foo_req_def del: feed.simps(2))

subsection \<open>The end of a session\<close>









text \<open>
  C5 (the code at the failing input). A line that fills the buffer of \<open>MaxReqSize = 1024\<close>
  bytes without a newline is reported with \<open>isPrefix = true\<close> and a nil error. The client's
  IP is passed to \<open>BanClient\<close>, and \<open>handleTCPClient\<close> returns that nil error: \<open>ListenTCP\<close>
  then neither removes the session nor closes the connection.
\<close>

theorem flood_banned_but_not_closed:
  "length (data long_line) = MaxReqSize \<and>
   ListenTCP_serve demo_server 1 demo_session demo_rng [(reader_ext, long_line)] =
     Inr (Returned Oversized None,
          \<lparr> Extranonces = [''00af'' \<mapsto> True], sessions = {1},
            policy = [BanClient ''10.0.0.1''] \<rparr>,
          demo_session, demo_rng) \<and>
   conn_closed demo_session = False"
  by (simp add: ListenTCP_serve_def long_line_def demo_server_def MaxReqSize_def
      demo_session_def newSession_def)

subsection \<open>Share submission\<close>








text \<open>
  C7 (as amended). In an EthProxy session, an \<open>eth_submitWork\<close> whose parameters decode as
  strings but are fewer than three, or whose lengths differ from 18, 66 and 66, is dropped:
  no reply is written, the session is unchanged, and \<open>handleTCPSubmitRPC\<close> is not consulted
  (the outcome is the same whatever it would answer). No malformed-params error reply is
  sent. (Nothing is stated here about the value the handler returns.)
\<close>

theorem submitWork_wrong_lengths:
  assumes "stratum cs = EthProxy" and "Method req = ''eth_submitWork''"
    and "Params req = Strings ps"
    and "length ps < 3 \<or> length (ps ! 0) \<noteq> 18 \<or> length (ps ! 1) \<noteq> 66 \<or>
         length (ps ! 2) \<noteq> 66"
  shows "(\<exists>err. handleTCPMessage e cs r req = Inr (err, cs, r)) \<and>
         handleTCPMessage (e\<lparr>handleTCPSubmitRPC := f\<rparr>) cs r req = handleTCPMessage e cs r req"
  using assms
  by (auto simp: handleTCPMessage_def stratumMode_def NiceHash_def EthProxy_def
      case_eth_submitWork_def unmarshalParams_def)

text \<open>Witness: an EthProxy session and an \<open>eth_submitWork\<close> with the single parameter \<open>0x01\<close>.\<close>

theorem submitWork_wrong_lengths_witness:
  "(\<exists>err. handleTCPMessage demo_ext (demo_session\<lparr>stratum := EthProxy\<rparr>) demo_rng
             short_submitWork =
      Inr (err, demo_session\<lparr>stratum := EthProxy\<rparr>, demo_rng)) \<and>
   handleTCPMessage (demo_ext\<lparr>handleTCPSubmitRPC := (\<lambda>cs wid ps. (False, None))\<rparr>)
      (demo_session\<lparr>stratum := EthProxy\<rparr>) demo_rng short_submitWork =
   handleTCPMessage demo_ext (demo_session\<lparr>stratum := EthProxy\<rparr>) demo_rng short_submitWork"
  using submitWork_wrong_lengths [of "demo_session\<lparr>stratum := EthProxy\<rparr>" short_submitWork
      "[''0x01'']" demo_ext demo_rng "\<lambda>cs wid ps. (False, None)"]
  by (simp add: short_submitWork_def EthProxy_def)

text \<open>
  Counterexample to C7 as stated: for that request the handler returns nil and the frames
  written stay those written before, none; no error reply is sent and the session goes on.
\<close>

theorem submitWork_wrong_lengths_no_reply:
  "handleTCPMessage demo_ext (demo_session\<lparr>stratum := EthProxy\<rparr>) demo_rng short_submitWork =
     Inr (None, demo_session\<lparr>stratum := EthProxy\<rparr>, demo_rng) \<and>
   enc (demo_session\<lparr>stratum := EthProxy\<rparr>) = []"
  by (simp add: handleTCPMessage_def stratumMode_def NiceHash_def EthProxy_def
      case_eth_submitWork_def unmarshalParams_def short_submitWork_def demo_session_def
      newSession_def)

subsection \<open>Extranonces\<close>

lemma randomHex_shape: "randomHex k r = (x, r') \<Longrightarrow> length x = k \<and> set x \<subseteq> set chars"
proof (induction k arbitrary: r x r')
  case 0
  then show ?case by simp
next
  case (Suc k)
  obtain y r1 where y: "randomHex k (snd (Intn (length chars) r)) = (y, r1)" by fastforce
  have "fst (Intn (length chars) r) < length chars" by (simp add: Intn_def chars_def)
  then have "chars ! fst (Intn (length chars) r) \<in> set chars" by (rule nth_mem)
  with Suc.prems y Suc.IH [OF y] show ?case
    by (auto simp: split_beta)
qed

lemma randomHex4_isHex4: "isHex4 (fst (randomHex 4 r))"
  using randomHex_shape [of 4 r "fst (randomHex 4 r)" "snd (randomHex 4 r)"]
  by (simp add: isHex4_def)

lemma candidate_isHex4: "isHex4 (fst (candidate k r))"
  by (induction k arbitrary: r) (simp_all add: randomHex4_isHex4)

lemma loop_retry:
  "(\<forall>j<k. m (fst (candidate j r)) \<noteq> None) \<Longrightarrow>
   uniqExtranonce_loop m (fst (candidate 0 r)) (snd (candidate 0 r)) =
   uniqExtranonce_loop m (fst (candidate k r)) (snd (candidate k r))"
proof (induction k arbitrary: r)
  case 0
  show ?case by simp
next
  case (Suc k)
  let ?r0 = "snd (randomHex 4 r)"
  from Suc.prems have held: "m (fst (randomHex 4 r)) \<noteq> None" by fastforce
  from Suc.prems have "\<forall>j<k. m (fst (candidate j ?r0)) \<noteq> None" by fastforce
  from Suc.IH [OF this]
  have "uniqExtranonce_loop m (fst (randomHex 4 ?r0)) (snd (randomHex 4 ?r0)) =
        uniqExtranonce_loop m (fst (candidate (Suc k) r)) (snd (candidate (Suc k) r))"
    by simp
  moreover from held
  have "uniqExtranonce_loop m (fst (randomHex 4 r)) ?r0 =
        uniqExtranonce_loop m (fst (randomHex 4 ?r0)) (snd (randomHex 4 ?r0))"
    by (subst uniqExtranonce_loop.simps) (simp add: split_beta)
  ultimately show ?case by simp
qed

lemma loop_fresh: "m x = None \<Longrightarrow> uniqExtranonce_loop m x r = Some (x, r)"
  by (subst uniqExtranonce_loop.simps) simp

lemma uniqExtranonce_first_fresh:
  assumes "Extranonces s (fst (candidate k r)) = None"
    and "\<forall>j<k. Extranonces s (fst (candidate j r)) \<noteq> None"
  shows "uniqExtranonce s r =
           Some (fst (candidate k r),
                 s\<lparr>Extranonces := (Extranonces s)(fst (candidate k r) \<mapsto> True)\<rparr>,
                 snd (candidate k r))"
proof -
  have "uniqExtranonce_loop (Extranonces s) (fst (randomHex 4 r)) (snd (randomHex 4 r)) =
        Some (fst (candidate k r), snd (candidate k r))"
    using loop_retry [OF assms(2)]
      loop_fresh [of "Extranonces s" "fst (candidate k r)" "snd (candidate k r)"] assms(1)
    by simp
  then show ?thesis by (simp add: uniqExtranonce_def split_beta)
qed

lemma collide_candidates:
  "fst (candidate 0 collide_rng) = ''0000'' \<and> fst (candidate 1 collide_rng) = ''00af'' \<and>
   snd (candidate 1 collide_rng) = (\<lambda>i. 0)"
  by (simp add: collide_rng_def randomHex_feed chars_def del: feed.simps(2))

lemma loop_all_held_never_returns:
  assumes "uniqExtranonce_loop m x r = Some y"
  shows "\<not> (m x \<noteq> None \<and> (\<forall>k. m (fst (candidate k r)) \<noteq> None))"
proof (rule uniqExtranonce_loop.raw_induct
    [where P = "\<lambda>m x r y. \<not> (m x \<noteq> None \<and> (\<forall>k. m (fst (candidate k r)) \<noteq> None))",
     OF _ assms])
  fix loop :: "(string \<rightharpoonup> bool) \<Rightarrow> string \<Rightarrow> rng \<Rightarrow> (string \<times> rng) option"
  fix m x r y
  assume IH: "\<And>m x r y. loop m x r = Some y \<Longrightarrow>
                \<not> (m x \<noteq> None \<and> (\<forall>k. m (fst (candidate k r)) \<noteq> None))"
  assume body: "(if m x \<noteq> None
                 then case randomHex 4 r of (x', r') \<Rightarrow> loop m x' r'
                 else Some (x, r)) = Some y"
  show "\<not> (m x \<noteq> None \<and> (\<forall>k. m (fst (candidate k r)) \<noteq> None))"
  proof
    assume held: "m x \<noteq> None \<and> (\<forall>k. m (fst (candidate k r)) \<noteq> None)"
    with body have "loop m (fst (randomHex 4 r)) (snd (randomHex 4 r)) = Some y"
      by (simp add: split_beta)
    from IH [OF this]
    have "\<not> (m (fst (randomHex 4 r)) \<noteq> None \<and>
              (\<forall>k. m (fst (candidate k (snd (randomHex 4 r)))) \<noteq> None))" .
    moreover from held have "m (fst (candidate 0 r)) \<noteq> None" by blast
    moreover have "\<forall>k. m (fst (candidate k (snd (randomHex 4 r)))) \<noteq> None"
    proof
      fix k
      from held have "m (fst (candidate (Suc k) r)) \<noteq> None" by blast
      then show "m (fst (candidate k (snd (randomHex 4 r)))) \<noteq> None" by simp
    qed
    ultimately show False by simp
  qed
qed

lemma uniqExtranonce_never:
  assumes "\<forall>k. Extranonces s (fst (candidate k r)) \<noteq> None"
  shows "uniqExtranonce s r = None"
proof (cases "uniqExtranonce_loop (Extranonces s) (fst (randomHex 4 r)) (snd (randomHex 4 r))")
  case None
  then show ?thesis by (simp add: uniqExtranonce_def split_beta)
next
  case (Some y)
  from assms have "Extranonces s (fst (candidate 0 r)) \<noteq> None" by blast
  moreover have "\<forall>k. Extranonces s (fst (candidate k (snd (randomHex 4 r)))) \<noteq> None"
  proof
    fix k
    from assms have "Extranonces s (fst (candidate (Suc k) r)) \<noteq> None" by blast
    then show "Extranonces s (fst (candidate k (snd (randomHex 4 r)))) \<noteq> None" by simp
  qed
  ultimately have False using loop_all_held_never_returns [OF Some] by simp
  then show ?thesis ..
qed

lemma full_server_all_held: "\<forall>k. Extranonces full_server (fst (candidate k r)) \<noteq> None"
  by (simp add: full_server_def candidate_isHex4)

text \<open>
  C8 (as amended). \<open>uniqExtranonce\<close> does not return for every registry state: it returns
  exactly when the generator eventually yields a candidate that is not held. For every
  registry and every generator with such a candidate, it returns the first candidate not
  held, retrying past every colliding one before it; the value returned is four characters
  of \<open>0123456789abcdef\<close>, is not held at the moment of return, and is recorded in the
  registry, which is otherwise unchanged. When every candidate is held, as when the registry
  holds all 65536 values, it never returns.
\<close>

theorem uniqExtranonce_fresh:
  "((\<exists>k. Extranonces s (fst (candidate k r)) = None) \<longrightarrow>
      (\<exists>k. (\<forall>j<k. Extranonces s (fst (candidate j r)) \<noteq> None) \<and>
            Extranonces s (fst (candidate k r)) = None \<and>
            isHex4 (fst (candidate k r)) \<and>
            uniqExtranonce s r =
              Some (fst (candidate k r),
                    s\<lparr>Extranonces := (Extranonces s)(fst (candidate k r) \<mapsto> True)\<rparr>,
                    snd (candidate k r)))) \<and>
   ((\<forall>k. Extranonces s (fst (candidate k r)) \<noteq> None) \<longrightarrow> uniqExtranonce s r = None)"
proof (intro conjI impI)
  assume "\<exists>k. Extranonces s (fst (candidate k r)) = None"
  then obtain k where k: "Extranonces s (fst (candidate k r)) = None"
    and least: "\<forall>j<k. Extranonces s (fst (candidate j r)) \<noteq> None"
    using exists_least_iff [of "\<lambda>k. Extranonces s (fst (candidate k r)) = None"] by blast
  from uniqExtranonce_first_fresh [OF k least] k least candidate_isHex4 [of k r]
  show "\<exists>k. (\<forall>j<k. Extranonces s (fst (candidate j r)) \<noteq> None) \<and>
            Extranonces s (fst (candidate k r)) = None \<and>
            isHex4 (fst (candidate k r)) \<and>
            uniqExtranonce s r =
              Some (fst (candidate k r),
                    s\<lparr>Extranonces := (Extranonces s)(fst (candidate k r) \<mapsto> True)\<rparr>,
                    snd (candidate k r))" by blast
next
  assume "\<forall>k. Extranonces s (fst (candidate k r)) \<noteq> None"
  then show "uniqExtranonce s r = None" by (rule uniqExtranonce_never)
qed

text \<open>
  Witness: the registry holds \<open>0000\<close>, the generator yields \<open>0000\<close> first and \<open>00af\<close> next;
  the value issued is \<open>00af\<close>, and the registry then holds both. With the same generator
  and the registry that holds every value, nothing is issued.
\<close>

theorem uniqExtranonce_fresh_witness:
  "uniqExtranonce collide_server collide_rng =
     Some (''00af'',
           \<lparr> Extranonces = [''0000'' \<mapsto> True, ''00af'' \<mapsto> True], sessions = {},
             policy = [] \<rparr>,
           \<lambda>i. 0) \<and>
   isHex4 ''00af'' \<and>
   uniqExtranonce full_server collide_rng = None"
proof -
  have "\<exists>k. Extranonces collide_server (fst (candidate k collide_rng)) = None"
    using collide_candidates by (intro exI [of _ 1]) (simp add: collide_server_def)
  with uniqExtranonce_fresh [of collide_server collide_rng] obtain k where
    least: "\<forall>j<k. Extranonces collide_server (fst (candidate j collide_rng)) \<noteq> None"
    and fresh: "Extranonces collide_server (fst (candidate k collide_rng)) = None"
    and res: "uniqExtranonce collide_server collide_rng =
       Some (fst (candidate k collide_rng),
             collide_server\<lparr>Extranonces :=
               (Extranonces collide_server)(fst (candidate k collide_rng) \<mapsto> True)\<rparr>,
             snd (candidate k collide_rng))"
    by blast
  have "k \<noteq> 0"
  proof
    assume "k = 0"
    with fresh collide_candidates show False by (simp add: collide_server_def)
  qed
  moreover have "\<not> 1 < k"
  proof
    assume "1 < k"
    with least have "Extranonces collide_server (fst (candidate 1 collide_rng)) \<noteq> None"
      by blast
    with collide_candidates show False by (simp add: collide_server_def)
  qed
  ultimately have "k = 1" by simp
  with res collide_candidates
  have a: "uniqExtranonce collide_server collide_rng =
     Some (''00af'',
           \<lparr> Extranonces = [''0000'' \<mapsto> True, ''00af'' \<mapsto> True], sessions = {},
             policy = [] \<rparr>,
           \<lambda>i. 0)"
    by (simp add: collide_server_def)
  have b: "isHex4 ''00af''" by (simp add: isHex4_def chars_def)
  from uniqExtranonce_fresh [of full_server collide_rng] full_server_all_held
  have c: "uniqExtranonce full_server collide_rng = None" by blast
  from a b c show ?thesis by simp
qed

text \<open>
  Counterexample to C8 as stated: when every four-character hex string is held, the retry
  loop never finds a value, and \<open>uniqExtranonce\<close> does not return.
\<close>

theorem uniqExtranonce_full_registry: "uniqExtranonce full_server (\<lambda>i. 0) = None"
  using full_server_all_held by (rule uniqExtranonce_never)

subsection \<open>Setting the dialect\<close>

text \<open>
  C9. For every input string, including the empty string and any unrecognised one,
  \<open>setStratumMode\<close> returns no error; the session's mode becomes NiceHash exactly when the
  input is \<open>EthereumStratum/1.0.0\<close> and EthProxy for every other input, and no other field
  of the session changes.
\<close>

theorem setStratumMode_total:
  "fst (setStratumMode cs str) = None \<and>
   (stratum (snd (setStratumMode cs str)) = NiceHash) = (str = ''EthereumStratum/1.0.0'') \<and>
   (stratum (snd (setStratumMode cs str)) = EthProxy) = (str \<noteq> ''EthereumStratum/1.0.0'') \<and>
   snd (setStratumMode cs str) = cs\<lparr>stratum := stratum (snd (setStratumMode cs str))\<rparr>"
  by (simp add: setStratumMode_def NiceHash_def EthProxy_def)

text \<open>Witness: the empty string, the string \<open>EthProxy\<close> and the NiceHash version string.\<close>

theorem setStratumMode_total_witness:
  "fst (setStratumMode demo_session []) = None \<and>
   stratum (snd (setStratumMode demo_session [])) = 0 \<and>
   stratum (snd (setStratumMode demo_session ''EthProxy'')) = 0 \<and>
   stratum (snd (setStratumMode demo_session ''EthereumStratum/1.0.0'')) = 1"
  using setStratumMode_total [of demo_session "[]"]
    setStratumMode_total [of demo_session "''EthProxy''"]
    setStratumMode_total [of demo_session "''EthereumStratum/1.0.0''"]
  by (simp add: NiceHash_def EthProxy_def)

subsection \<open>Stripping the 0x prefix\<close>

lemma strip0x_short: "length (SeedHash jd) < 2 \<Longrightarrow> strip0x jd = Inl OutOfRange"
  by (simp add: strip0x_def sliceTo2_def)

lemma newJobDetails_short:
  "4 \<le> length t \<Longrightarrow> length (t ! 1) < 2 \<Longrightarrow> newJobDetails jid t = Inl OutOfRange"
  by (simp add: newJobDetails_def strip0x_short)

lemma pushNewJob_short:
  "stratumMode cs = NiceHash \<Longrightarrow> 4 \<le> length t \<Longrightarrow> length (t ! 1) < 2 \<Longrightarrow>
   pushNewJob e cs r t = Inl OutOfRange"
  using cacheStales_10_3 [of cs]
  by (auto simp: pushNewJob_def newJobDetails_short split: prod.splits sum.splits)

lemma sendJob_short:
  "handleGetWorkRPC e cs = (reply, None) \<Longrightarrow> 4 \<le> length reply \<Longrightarrow>
   length (reply ! 1) < 2 \<Longrightarrow> sendJob e cs r rid True = Inl OutOfRange"
  by (auto simp: sendJob_def newJobDetails_short split: prod.splits sum.splits)

text \<open>
  C10. The prefix-stripping step of \<open>sendJob\<close> and \<open>pushNewJob\<close> evaluates
  \<open>SeedHash[0:2]\<close> with no length check: the slice is defined exactly when the seed hash has
  at least two characters. For every shorter seed hash in an otherwise complete work reply
  the step panics with a slice out of range, in \<open>pushNewJob\<close> for a NiceHash session and in
  \<open>sendJob\<close> with \<open>newjob = true\<close>.
\<close>

theorem seed_prefix_slice_unguarded:
  "(\<exists>pre. sliceTo2 seed = Inr pre) = (2 \<le> length seed) \<and>
   (length (SeedHash jd) < 2 \<longrightarrow> strip0x jd = Inl OutOfRange) \<and>
   (stratumMode cs = NiceHash \<and> 4 \<le> length t \<and> length (t ! 1) < 2 \<longrightarrow>
      pushNewJob e cs r t = Inl OutOfRange) \<and>
   (handleGetWorkRPC e cs' = (reply, None) \<and> 4 \<le> length reply \<and> length (reply ! 1) < 2 \<longrightarrow>
      sendJob e cs' r rid True = Inl OutOfRange)"
proof -
  have "(\<exists>pre. sliceTo2 seed = Inr pre) = (2 \<le> length seed)"
    by (auto simp: sliceTo2_def)
  with strip0x_short pushNewJob_short sendJob_short show ?thesis by blast
qed

text \<open>
  Witness: a work reply whose seed hash is the one-character string \<open>0\<close>, pushed to a
  NiceHash session and fetched by \<open>sendJob\<close>.
\<close>

theorem seed_prefix_slice_unguarded_witness:
  "(\<exists>pre. sliceTo2 ''0x'' = Inr pre) \<and>
   strip0x \<lparr> JobID = ''11111111'', SeedHash = ''0'', HeaderHash = ''0xh1'', Height = ''0x1'' \<rparr> =
     Inl OutOfRange \<and>
   pushNewJob demo_ext nh_session demo_rng [''0xh1'', ''0'', ''0x01'', ''0x1''] = Inl OutOfRange \<and>
   sendJob (demo_ext\<lparr>handleGetWorkRPC := (\<lambda>cs. ([''0xh1'', ''0'', ''0x01'', ''0x1''], None))\<rparr>)
     nh_session demo_rng ''3'' True = Inl OutOfRange"
  using
    seed_prefix_slice_unguarded [of "''0x''"
      "\<lparr> JobID = ''11111111'', SeedHash = ''0'', HeaderHash = ''0xh1'', Height = ''0x1'' \<rparr>"
      nh_session "[''0xh1'', ''0'', ''0x01'', ''0x1'']" demo_ext demo_rng]
    seed_prefix_slice_unguarded [of "''0x''"
      "\<lparr> JobID = ''11111111'', SeedHash = ''0'', HeaderHash = ''0xh1'', Height = ''0x1'' \<rparr>"
      nh_session "[''0xh1'', ''0'', ''0x01'', ''0x1'']"
      "demo_ext\<lparr>handleGetWorkRPC := (\<lambda>cs. ([''0xh1'', ''0'', ''0x01'', ''0x1''], None))\<rparr>"
      demo_rng nh_session "[''0xh1'', ''0'', ''0x01'', ''0x1'']" "''3''"]
  by (simp add: stratumMode_def nh_session_def NiceHash_def)

end
